theory Spec2Isabelle
  imports Main "HOL-Library.Word"
begin

section \<open>The e-consult front end (frontend/script.js)\<close>

text \<open>
  The script is a set of event handlers over a page: each handler reads input fields,
  issues one \<^verbatim>\<open>fetch\<close>, inspects the parsed JSON answer and writes to the page.
  The embedding follows the script function by function.
  \<^item> The page is a record of the element properties the script reads or writes, together
    with the trace of the HTTP requests issued and of the console output.
  \<^item> The outside world of one handler invocation is a record \<open>env\<close>: what the network
    answers to a request, what the user answers to \<^verbatim>\<open>confirm\<close>, and the two
    engine-defined observations the script can make but does not determine (the text of
    an engine \<^verbatim>\<open>TypeError\<close>, a relational comparison on a non-number).
  \<^item> A thrown value is a value of type \<open>js_exn\<close>; a block of statements returns a
    \<open>completion\<close>, normal or abrupt, carrying the page as it is at that point, so
    \<^verbatim>\<open>try\<close>/\<^verbatim>\<open>catch\<close>/\<^verbatim>\<open>finally\<close> are case distinctions.
  \<^item> An invocation is taken from its start to its end in isolation: every awaited promise
    settles (resolved or rejected), and no other handler runs while this one is suspended.
  \<^item> The document holds every element the script looks up by id, and a property holds the
    string last assigned to it.
\<close>

subsection \<open>Strings\<close>

text \<open>A JavaScript string is a sequence of UTF-16 code units.\<close>

type_synonym jsstring = "16 word list"

definition lit :: "string \<Rightarrow> jsstring" where
  "lit s = map of_char s"

text \<open>
  \<^verbatim>\<open>String.prototype.trim\<close> removes the code units of WhiteSpace and LineTerminator
  (ECMA-262) from both ends.
\<close>

definition is_ws :: "16 word \<Rightarrow> bool" where
  "is_ws c = (c \<in> set [0x9, 0xA, 0xB, 0xC, 0xD, 0x20, 0xA0, 0x1680, 0x2028, 0x2029,
                         0x202F, 0x205F, 0x3000, 0xFEFF]
              \<or> (0x2000 \<le> c \<and> c \<le> 0x200A))"

definition js_trim :: "jsstring \<Rightarrow> jsstring" where
  "js_trim s = rev (dropWhile is_ws (rev (dropWhile is_ws s)))"

text \<open>The decimal numeral of a natural number, as a template literal prints an integer.\<close>

fun decimal :: "nat \<Rightarrow> jsstring" where
  "decimal n = (if n < 10 then [of_nat (48 + n)]
                else decimal (n div 10) @ [of_nat (48 + n mod 10)])"

declare decimal.simps [simp del]

subsection \<open>JavaScript values of parsed JSON\<close>

text \<open>
  A number is kept by the three observations the script can make of it: its truth value
  (false for zero), whether it is greater than zero, and its string conversion.
\<close>

record jsnumber =
  num_truthy :: bool
  num_positive :: bool
  num_text :: jsstring

definition num_of_nat :: "nat \<Rightarrow> jsnumber" where
  "num_of_nat n = \<lparr>num_truthy = (n \<noteq> 0), num_positive = (0 < n), num_text = decimal n\<rparr>"

datatype jsval =
    Undefined
  | Null
  | Bool bool
  | Num jsnumber
  | Str jsstring
  | Arr "jsval list"
  | Obj "(jsstring \<times> jsval) list"

text \<open>
  A thrown value: an \<^verbatim>\<open>Error\<close> object with its message, or a \<^verbatim>\<open>TypeError\<close>
  raised by the engine itself, whose message the engine chooses.
\<close>

datatype js_exn = Error jsstring | EngineTypeError

text \<open>An object built by \<^verbatim>\<open>JSON.parse\<close>: of a repeated name the last member counts.\<close>

definition obj_get :: "(jsstring \<times> jsval) list \<Rightarrow> jsstring \<Rightarrow> jsval" where
  "obj_get kvs k = (case map_of (rev kvs) k of None \<Rightarrow> Undefined | Some v \<Rightarrow> v)"

text \<open>
  Property read \<^verbatim>\<open>v.k\<close>, for the names the script reads (none of them is a property of
  a built-in prototype, apart from \<^verbatim>\<open>length\<close> of arrays and strings; \<^verbatim>\<open>forEach\<close> is
  treated where it is called). Reading a property of \<^verbatim>\<open>undefined\<close> or
  \<^verbatim>\<open>null\<close> throws.
\<close>

fun get_prop :: "jsval \<Rightarrow> jsstring \<Rightarrow> js_exn + jsval" where
  "get_prop Undefined k = Inl EngineTypeError"
| "get_prop Null k = Inl EngineTypeError"
| "get_prop (Obj kvs) k = Inr (obj_get kvs k)"
| "get_prop (Arr xs) k = Inr (if k = lit ''length'' then Num (num_of_nat (length xs)) else Undefined)"
| "get_prop (Str s) k = Inr (if k = lit ''length'' then Num (num_of_nat (length s)) else Undefined)"
| "get_prop (Bool b) k = Inr Undefined"
| "get_prop (Num n) k = Inr Undefined"

text \<open>ToBoolean, and the operator \<^verbatim>\<open>||\<close> on values.\<close>

fun truthy :: "jsval \<Rightarrow> bool" where
  "truthy Undefined = False"
| "truthy Null = False"
| "truthy (Bool b) = b"
| "truthy (Num n) = num_truthy n"
| "truthy (Str s) = (s \<noteq> [])"
| "truthy (Arr xs) = True"
| "truthy (Obj kvs) = True"

definition js_or :: "jsval \<Rightarrow> jsval \<Rightarrow> jsval" where
  "js_or a b = (if truthy a then a else b)"

text \<open>
  ToString, as applied by template literals, by the \<^verbatim>\<open>Error\<close> constructor and by the
  setters of \<^verbatim>\<open>value\<close> and \<^verbatim>\<open>innerHTML\<close>. An array is joined with commas, where
  \<^verbatim>\<open>undefined\<close> and \<^verbatim>\<open>null\<close> elements give the empty string. A parsed object gives
  \<^verbatim>\<open>[object Object]\<close>, unless it has a member named \<^verbatim>\<open>toString\<close>: that member is
  not callable, and the conversion throws.
\<close>

fun to_string :: "jsval \<Rightarrow> js_exn + jsstring"
  and join_elems :: "jsval list \<Rightarrow> js_exn + jsstring" where
  "to_string Undefined = Inr (lit ''undefined'')"
| "to_string Null = Inr (lit ''null'')"
| "to_string (Bool b) = Inr (if b then lit ''true'' else lit ''false'')"
| "to_string (Num n) = Inr (num_text n)"
| "to_string (Str s) = Inr s"
| "to_string (Arr xs) = join_elems xs"
| "to_string (Obj kvs) =
     (if lit ''toString'' \<in> set (map fst kvs) then Inl EngineTypeError
      else Inr (lit ''[object Object]''))"
| "join_elems [] = Inr []"
| "join_elems (x # xs) =
     (case (if x = Undefined \<or> x = Null then Inr [] else to_string x) of
        Inl e \<Rightarrow> Inl e
      | Inr a \<Rightarrow>
          (if xs = [] then Inr a
           else (case join_elems xs of Inl e \<Rightarrow> Inl e | Inr b \<Rightarrow> Inr (a @ lit '','' @ b))))"

subsection \<open>The network and the environment\<close>

text \<open>
  A request as handed to \<^verbatim>\<open>fetch\<close>. The body is the value given to
  \<^verbatim>\<open>JSON.stringify\<close>; a call without options is a GET without headers and body.
\<close>

record request =
  req_method :: jsstring
  req_url :: jsstring
  req_headers :: "(jsstring \<times> jsstring) list"
  req_body :: "jsval option"

text \<open>
  A response: its status, and what \<^verbatim>\<open>response.json()\<close> settles to (rejected with an
  error, or resolved with the parsed value). \<^verbatim>\<open>response.ok\<close> is true for the statuses
  200 to 299.
\<close>

record response =
  status :: nat
  json_result :: "js_exn + jsval"

definition ok :: "response \<Rightarrow> bool" where
  "ok r = (200 \<le> status r \<and> status r \<le> 299)"

record env =
  net :: "request \<Rightarrow> js_exn + response"
  confirm :: "jsstring \<Rightarrow> bool"
  type_error_message :: jsstring
  relational_oracle :: "jsval \<Rightarrow> js_exn + bool"

text \<open>\<^verbatim>\<open>error.message\<close> in a catch block.\<close>

fun message :: "env \<Rightarrow> js_exn \<Rightarrow> jsstring" where
  "message env (Error m) = m"
| "message env EngineTypeError = type_error_message env"

text \<open>
  The comparison \<^verbatim>\<open>v > 0\<close>. On a string, an array or an object the engine converts the
  operand to a number first; that conversion is left to the environment.
\<close>

fun gt_zero :: "env \<Rightarrow> jsval \<Rightarrow> js_exn + bool" where
  "gt_zero env Undefined = Inr False"
| "gt_zero env Null = Inr False"
| "gt_zero env (Bool b) = Inr b"
| "gt_zero env (Num n) = Inr (num_positive n)"
| "gt_zero env v = relational_oracle env v"

subsection \<open>The page\<close>

record page =
  defaultSystemPrompts_value :: jsstring
  question_value :: jsstring
  doctorInstructions_value :: jsstring
  messageArea_innerHTML :: jsstring
  answerContent_innerHTML :: jsstring
  referencesContent_innerHTML :: jsstring
  answerSection_display :: jsstring
  loading_display :: jsstring
  searchBtn_disabled :: bool
  requests :: "request list"
  console :: "(jsstring \<times> js_exn) list"

datatype completion = Normal page | Abrupt js_exn page

text \<open>Evaluating an expression inside a block: a throw ends the block with the page as it is.\<close>

definition eval :: "js_exn + 'a \<Rightarrow> page \<Rightarrow> ('a \<Rightarrow> completion) \<Rightarrow> completion" where
  "eval m s f = (case m of Inl e \<Rightarrow> Abrupt e s | Inr v \<Rightarrow> f v)"

definition API_BASE_URL :: jsstring where
  "API_BASE_URL = lit ''http://localhost:8000''"

definition fetch :: "env \<Rightarrow> request \<Rightarrow> page \<Rightarrow> (js_exn + response) \<times> page" where
  "fetch env rq s = (net env rq, s\<lparr>requests := requests s @ [rq]\<rparr>)"

definition console_error :: "jsstring \<Rightarrow> js_exn \<Rightarrow> page \<Rightarrow> page" where
  "console_error label e s = s\<lparr>console := console s @ [(label, e)]\<rparr>"

definition showLoading :: "bool \<Rightarrow> page \<Rightarrow> page" where
  "showLoading show s =
     s\<lparr>loading_display := (if show then lit ''block'' else lit ''none''),
       searchBtn_disabled := show\<rparr>"

definition message_div :: "jsstring \<Rightarrow> jsstring \<Rightarrow> jsstring" where
  \<open>message_div msg type = lit ''<div class="'' @ type @ lit ''">'' @ msg @ lit ''</div>''\<close>

definition showMessage :: "jsstring \<Rightarrow> jsstring \<Rightarrow> page \<Rightarrow> page" where
  "showMessage msg type s = s\<lparr>messageArea_innerHTML := message_div msg type\<rparr>"

definition hideMessage :: "page \<Rightarrow> page" where
  "hideMessage s = s\<lparr>messageArea_innerHTML := []\<rparr>"

definition showAnswerSection :: "page \<Rightarrow> page" where
  "showAnswerSection s = s\<lparr>answerSection_display := lit ''block''\<rparr>"

definition hideAnswerSection :: "page \<Rightarrow> page" where
  "hideAnswerSection s = s\<lparr>answerSection_display := lit ''none''\<rparr>"

definition http_error :: "response \<Rightarrow> js_exn" where
  "http_error r = Error (lit ''HTTP error! status: '' @ decimal (status r))"

subsection \<open>Settings handlers\<close>

definition loadSettings_try :: "env \<Rightarrow> page \<Rightarrow> completion" where
  "loadSettings_try env s =
     (case fetch env \<lparr>req_method = lit ''GET'', req_url = API_BASE_URL @ lit ''/api/settings'',
                       req_headers = [], req_body = None\<rparr> s of
        (Inl e, s1) \<Rightarrow> Abrupt e s1
      | (Inr response, s1) \<Rightarrow>
          if \<not> ok response then Abrupt (http_error response) s1
          else
            eval (json_result response) s1 (\<lambda>data.
            eval (get_prop data (lit ''success'')) s1 (\<lambda>success.
            eval (if truthy success then get_prop data (lit ''settings'') else Inr success) s1
              (\<lambda>success_and_settings.
                if truthy success_and_settings
                then
                  eval (get_prop data (lit ''settings'')) s1 (\<lambda>settings.
                  eval (get_prop settings (lit ''default_system_prompts'')) s1 (\<lambda>v.
                  eval (to_string (js_or v (Str []))) s1 (\<lambda>text.
                    Normal (s1\<lparr>defaultSystemPrompts_value := text\<rparr>))))
                else Normal s1))))"

definition loadSettings :: "env \<Rightarrow> page \<Rightarrow> page" where
  "loadSettings env s =
     (case loadSettings_try env s of
        Normal s' \<Rightarrow> s'
      | Abrupt error s' \<Rightarrow>
          showMessage (lit ''Kon instellingen niet laden'') (lit ''error'')
            (console_error (lit ''Failed to load settings:'') error s'))"

definition saveSettings_try :: "env \<Rightarrow> jsstring \<Rightarrow> page \<Rightarrow> completion" where
  "saveSettings_try env defaultSystemPrompts s =
     (case fetch env \<lparr>req_method = lit ''POST'', req_url = API_BASE_URL @ lit ''/api/settings'',
                       req_headers = [(lit ''Content-Type'', lit ''application/json'')],
                       req_body = Some (Obj [(lit ''default_system_prompts'',
                                              Str defaultSystemPrompts)])\<rparr> s of
        (Inl e, s1) \<Rightarrow> Abrupt e s1
      | (Inr response, s1) \<Rightarrow>
          if \<not> ok response then Abrupt (http_error response) s1
          else
            eval (json_result response) s1 (\<lambda>data.
            eval (get_prop data (lit ''success'')) s1 (\<lambda>success.
              if truthy success
              then Normal (showMessage (lit ''Instellingen succesvol opgeslagen!'')
                             (lit ''success'') s1)
              else
                eval (get_prop data (lit ''message'')) s1 (\<lambda>m.
                eval (to_string (js_or m (Str (lit ''Onbekende fout opgetreden'')))) s1 (\<lambda>text.
                  Abrupt (Error text) s1)))))"

definition saveSettings :: "env \<Rightarrow> page \<Rightarrow> page" where
  "saveSettings env s =
     (let defaultSystemPrompts = js_trim (defaultSystemPrompts_value s) in
      case saveSettings_try env defaultSystemPrompts s of
        Normal s' \<Rightarrow> s'
      | Abrupt error s' \<Rightarrow>
          showMessage (lit ''Fout bij opslaan instellingen: '' @ message env error) (lit ''error'')
            (console_error (lit ''Settings save error:'') error s'))"

definition resetSettings_try :: "env \<Rightarrow> page \<Rightarrow> completion" where
  "resetSettings_try env s =
     (case fetch env \<lparr>req_method = lit ''DELETE'', req_url = API_BASE_URL @ lit ''/api/settings'',
                       req_headers = [], req_body = None\<rparr> s of
        (Inl e, s1) \<Rightarrow> Abrupt e s1
      | (Inr response, s1) \<Rightarrow>
          if \<not> ok response then Abrupt (http_error response) s1
          else
            eval (json_result response) s1 (\<lambda>data.
            eval (get_prop data (lit ''success'')) s1 (\<lambda>success.
              if truthy success
              then Normal (showMessage (lit ''Instellingen gereset naar standaardwaarden!'')
                             (lit ''success'') (s1\<lparr>defaultSystemPrompts_value := []\<rparr>))
              else
                eval (get_prop data (lit ''message'')) s1 (\<lambda>m.
                eval (to_string (js_or m (Str (lit ''Onbekende fout opgetreden'')))) s1 (\<lambda>text.
                  Abrupt (Error text) s1)))))"

definition resetSettings :: "env \<Rightarrow> page \<Rightarrow> page" where
  "resetSettings env s =
     (if \<not> confirm env
            (lit ''Weet je zeker dat je alle instellingen wilt resetten naar standaardwaarden?'')
      then s
      else
        (case resetSettings_try env s of
           Normal s' \<Rightarrow> s'
         | Abrupt error s' \<Rightarrow>
             showMessage (lit ''Fout bij resetten instellingen: '' @ message env error)
               (lit ''error'') (console_error (lit ''Settings reset error:'') error s')))"

subsection \<open>Search\<close>

definition bind_exn :: "js_exn + 'a \<Rightarrow> ('a \<Rightarrow> js_exn + 'b) \<Rightarrow> js_exn + 'b" where
  "bind_exn m f = (case m of Inl e \<Rightarrow> Inl e | Inr v \<Rightarrow> f v)"

text \<open>The list item the callback of \<^verbatim>\<open>forEach\<close> appends for one entry.\<close>

definition link_item :: "jsstring \<Rightarrow> jsstring \<Rightarrow> jsstring" where
  \<open>link_item href caption =
     lit ''<li><a href="'' @ href @ lit ''" target="_blank" rel="noopener noreferrer">''
     @ caption @ lit ''</a></li>''\<close>

definition source_link :: "jsval \<Rightarrow> js_exn + jsstring" where
  "source_link result =
     bind_exn (get_prop result (lit ''url'')) (\<lambda>url.
     bind_exn (to_string url) (\<lambda>href.
     bind_exn (get_prop result (lit ''title'')) (\<lambda>title.
     bind_exn (to_string title) (\<lambda>caption.
       Inr (link_item href caption)))))"

fun append_links :: "jsval list \<Rightarrow> jsstring \<Rightarrow> js_exn + jsstring" where
  "append_links [] referencesHTML = Inr referencesHTML"
| "append_links (result # rest) referencesHTML =
     (case source_link result of
        Inl e \<Rightarrow> Inl e
      | Inr li \<Rightarrow> append_links rest (referencesHTML @ li))"

text \<open>
  \<^verbatim>\<open>sources_used.forEach(...)\<close>: only an array has the method; on any other value the
  call throws.
\<close>

fun forEach_sources :: "jsval \<Rightarrow> jsstring \<Rightarrow> js_exn + jsstring" where
  "forEach_sources (Arr xs) referencesHTML = append_links xs referencesHTML"
| "forEach_sources v referencesHTML = Inl EngineTypeError"

definition displayResults :: "env \<Rightarrow> jsval \<Rightarrow> page \<Rightarrow> completion" where
  "displayResults env data s =
     eval (get_prop data (lit ''llm_output'')) s (\<lambda>llm_output.
     eval (get_prop llm_output (lit ''summary'')) s (\<lambda>summary.
     eval (to_string (js_or summary (Str (lit ''Geen samenvatting beschikbaar.'')))) s (\<lambda>answer.
       let s1 = s\<lparr>answerContent_innerHTML := answer\<rparr> in
       eval (get_prop llm_output (lit ''sources_used'')) s1 (\<lambda>sources_used.
       eval (if truthy sources_used
             then bind_exn (get_prop sources_used (lit ''length'')) (gt_zero env)
             else Inr False) s1 (\<lambda>has_sources.
         if has_sources
         then
           eval (forEach_sources sources_used (lit ''<h4>Gebruikte bronnen:</h4><ul>'')) s1
             (\<lambda>referencesHTML.
               Normal (showAnswerSection
                         (s1\<lparr>referencesContent_innerHTML := referencesHTML @ lit ''</ul>''\<rparr>)))
         else
           Normal (showAnswerSection
                     (s1\<lparr>referencesContent_innerHTML :=
                           lit ''<p>Geen bronnen gevonden.</p>''\<rparr>)))))))"

definition performSearch_try :: "env \<Rightarrow> jsstring \<Rightarrow> jsstring \<Rightarrow> page \<Rightarrow> completion" where
  "performSearch_try env question doctorInstructions s =
     (case fetch env \<lparr>req_method = lit ''POST'', req_url = API_BASE_URL @ lit ''/api/search'',
                       req_headers = [(lit ''Content-Type'', lit ''application/json'')],
                       req_body = Some (Obj [(lit ''query'', Str question),
                                             (lit ''doctor_instructions'',
                                              Str doctorInstructions)])\<rparr> s of
        (Inl e, s1) \<Rightarrow> Abrupt e s1
      | (Inr response, s1) \<Rightarrow>
          if \<not> ok response then Abrupt (http_error response) s1
          else
            eval (json_result response) s1 (\<lambda>data.
            eval (get_prop data (lit ''success'')) s1 (\<lambda>success.
              if truthy success
              then
                (case displayResults env data s1 of
                   Abrupt e s2 \<Rightarrow> Abrupt e s2
                 | Normal s2 \<Rightarrow>
                     Normal (showMessage (lit ''Zoekopdracht succesvol voltooid!'')
                               (lit ''success'') s2))
              else
                eval (get_prop data (lit ''error_message'')) s1 (\<lambda>error_message.
                let errorMessage = js_or error_message (Str (lit ''Onbekende fout opgetreden'')) in
                eval (get_prop data (lit ''llm_output'')) s1 (\<lambda>llm_output.
                eval (if truthy llm_output
                      then bind_exn (get_prop llm_output (lit ''summary''))
                             (\<lambda>summary. Inr (truthy summary))
                      else Inr False) s1 (\<lambda>has_content.
                  if has_content
                  then
                    (case displayResults env data s1 of
                       Abrupt e s2 \<Rightarrow> Abrupt e s2
                     | Normal s2 \<Rightarrow>
                         eval (to_string errorMessage) s2 (\<lambda>text.
                           Normal (showMessage (lit ''Waarschuwing: '' @ text)
                                     (lit ''warning'') s2)))
                  else
                    eval (to_string errorMessage) s1 (\<lambda>text. Abrupt (Error text) s1)))))))"

definition performSearch :: "env \<Rightarrow> page \<Rightarrow> page" where
  "performSearch env s =
     (let question = js_trim (question_value s);
          doctorInstructions = js_trim (doctorInstructions_value s)
      in
        if question = [] then showMessage (lit ''Vul eerst een vraag in.'') (lit ''error'') s
        else
          (let s1 = hideAnswerSection (hideMessage (showLoading True s));
               s2 = (case performSearch_try env question doctorInstructions s1 of
                       Normal s' \<Rightarrow> s'
                     | Abrupt error s' \<Rightarrow>
                         showMessage (lit ''Fout bij zoeken: '' @ message env error) (lit ''error'')
                           (console_error (lit ''Search error:'') error s'))
           in showLoading False s2))"

subsection \<open>The HTTP interface, as the specification lists it\<close>

text \<open>
  The four operations of the collaborator, written from the interface description: method,
  path under the fixed base URL, and the members of the JSON body. The handlers' requests
  are compared with these.
\<close>

definition GET_api_settings :: request where
  "GET_api_settings =
     \<lparr>req_method = lit ''GET'', req_url = lit ''http://localhost:8000/api/settings'',
      req_headers = [], req_body = None\<rparr>"

definition POST_api_settings :: "jsstring \<Rightarrow> request" where
  "POST_api_settings default_system_prompts =
     \<lparr>req_method = lit ''POST'', req_url = lit ''http://localhost:8000/api/settings'',
      req_headers = [(lit ''Content-Type'', lit ''application/json'')],
      req_body = Some (Obj [(lit ''default_system_prompts'', Str default_system_prompts)])\<rparr>"

definition DELETE_api_settings :: request where
  "DELETE_api_settings =
     \<lparr>req_method = lit ''DELETE'', req_url = lit ''http://localhost:8000/api/settings'',
      req_headers = [], req_body = None\<rparr>"

definition POST_api_search :: "jsstring \<Rightarrow> jsstring \<Rightarrow> request" where
  "POST_api_search query doctor_instructions =
     \<lparr>req_method = lit ''POST'', req_url = lit ''http://localhost:8000/api/search'',
      req_headers = [(lit ''Content-Type'', lit ''application/json'')],
      req_body = Some (Obj [(lit ''query'', Str query),
                            (lit ''doctor_instructions'', Str doctor_instructions)])\<rparr>"

text \<open>
  The answer to \<^verbatim>\<open>DELETE /api/settings\<close> is a success: a response with a status from
  200 to 299 whose JSON value has a true \<^verbatim>\<open>success\<close> member.
\<close>

definition reset_accepted :: "env \<Rightarrow> bool" where
  "reset_accepted env =
     (case net env DELETE_api_settings of
        Inl e \<Rightarrow> False
      | Inr response \<Rightarrow>
          ok response \<and>
          (case json_result response of
             Inl e \<Rightarrow> False
           | Inr data \<Rightarrow>
               (case get_prop data (lit ''success'') of
                  Inl e \<Rightarrow> False
                | Inr success \<Rightarrow> truthy success)))"

text \<open>
  A source reference of the search result is a pair (title, url); an entry of
  \<^verbatim>\<open>sources_used\<close> stands for it when its two members are these strings.
\<close>

definition source_entry :: "jsval \<Rightarrow> jsstring \<times> jsstring \<Rightarrow> bool" where
  "source_entry e src =
     (get_prop e (lit ''title'') = Inr (Str (fst src))
      \<and> get_prop e (lit ''url'') = Inr (Str (snd src)))"

text \<open>
  The optional parts of \<^verbatim>\<open>llm_output\<close>. A summary is a string, or is missing: the
  member is absent or \<^verbatim>\<open>null\<close>. The sources are a list of entries that stand for
  (title, url) pairs, or are missing in the same sense.
\<close>

fun summary_value :: "jsval \<Rightarrow> jsstring option \<Rightarrow> bool" where
  "summary_value Undefined None = True"
| "summary_value Null None = True"
| "summary_value (Str text) (Some summary) = (text = summary)"
| "summary_value v summary = False"

fun sources_value :: "jsval \<Rightarrow> (jsstring \<times> jsstring) list option \<Rightarrow> bool" where
  "sources_value Undefined None = True"
| "sources_value Null None = True"
| "sources_value (Arr entries) (Some srcs) = list_all2 source_entry entries srcs"
| "sources_value v srcs = False"

text \<open>The page a completion carries.\<close>

fun page_of :: "completion \<Rightarrow> page" where
  "page_of (Normal s) = s"
| "page_of (Abrupt e s) = s"

subsection \<open>Sample pages and environments\<close>

text \<open>A page with filled-in fields, and one whose question holds white space only.\<close>

definition example_page :: page where
  "example_page =
     \<lparr>defaultSystemPrompts_value = lit '' Wees beknopt '',
      question_value = lit '' hoofdpijn '',
      doctorInstructions_value = lit ''kort '',
      messageArea_innerHTML = [], answerContent_innerHTML = [],
      referencesContent_innerHTML = [], answerSection_display = lit ''none'',
      loading_display = lit ''none'', searchBtn_disabled = False,
      requests = [], console = []\<rparr>"

definition blank_page :: page where
  "blank_page = example_page\<lparr>question_value := lit ''  ''\<rparr>"

text \<open>
  A server that answers every request with the given status and JSON value, and a user
  who confirms; a network on which every \<^verbatim>\<open>fetch\<close> is rejected; a user who declines.
\<close>

definition server_env :: "nat \<Rightarrow> jsval \<Rightarrow> env" where
  "server_env st data =
     \<lparr>net = (\<lambda>rq. Inr \<lparr>status = st, json_result = Inr data\<rparr>),
      confirm = (\<lambda>q. True),
      type_error_message = lit ''Cannot read properties of undefined'',
      relational_oracle = (\<lambda>v. Inr False)\<rparr>"


definition search_answer :: jsval where
  "search_answer =
     Obj [(lit ''success'', Bool True),
          (lit ''llm_output'',
           Obj [(lit ''summary'', Str (lit ''Rust en paracetamol.'')),
                (lit ''sources_used'',
                 Arr [Obj [(lit ''title'', Str (lit ''NHG'')),
                           (lit ''url'', Str (lit ''https://nhg.org/hoofdpijn''))],
                      Obj [(lit ''title'', Str (lit ''Thuisarts'')),
                           (lit ''url'', Str (lit ''https://thuisarts.nl''))]])])]"

definition bare_answer :: jsval where
  "bare_answer =
     Obj [(lit ''success'', Bool True),
          (lit ''llm_output'', Obj [(lit ''summary'', Null), (lit ''sources_used'', Arr [])])]"

text \<open>An answer that reports a failure of the application.\<close>

definition failure_answer :: jsval where
  "failure_answer =
     Obj [(lit ''success'', Bool False), (lit ''message'', Str (lit ''Database niet bereikbaar''))]"

definition offline_env :: env where
  "offline_env = (server_env 0 Null)\<lparr>net := (\<lambda>rq. Inl (Error (lit ''Failed to fetch'')))\<rparr>"

definition declining_env :: "nat \<Rightarrow> jsval \<Rightarrow> env" where
  "declining_env st data = (server_env st data)\<lparr>confirm := (\<lambda>q. False)\<rparr>"

section \<open>Properties\<close>

subsection \<open>Auxiliary facts\<close>

lemmas dom_defs = showLoading_def showMessage_def hideMessage_def showAnswerSection_def
  hideAnswerSection_def console_error_def

lemma example_question_nonempty: "js_trim (question_value example_page) = lit ''hoofdpijn''"
  by (simp add: example_page_def js_trim_def is_ws_def lit_def)

lemma blank_question_empty: "js_trim (question_value blank_page) = []"
  by (simp add: blank_page_def example_page_def js_trim_def is_ws_def lit_def)

lemma eval_frame:
  assumes "P s" and "\<And>v. m = Inr v \<Longrightarrow> P (page_of (f v))"
  shows "P (page_of (eval m s f))"
  using assms by (cases m) (simp_all add: eval_def)

lemma requests_displayResults: "requests (page_of (displayResults env data s)) = requests s"
  unfolding displayResults_def Let_def
  by (auto simp add: dom_defs intro!: eval_frame [where P = "\<lambda>s'. requests s' = requests s"])

lemma displayResults_Normal_requests:
  "displayResults env data s = Normal s' \<Longrightarrow> requests s' = requests s"
  using requests_displayResults [of env data s] by simp

lemma displayResults_Abrupt_requests:
  "displayResults env data s = Abrupt e s' \<Longrightarrow> requests s' = requests s"
  using requests_displayResults [of env data s] by simp

lemma settings_url: "API_BASE_URL @ lit ''/api/settings'' = lit ''http://localhost:8000/api/settings''"
  by (simp add: API_BASE_URL_def lit_def)

lemma search_url: "API_BASE_URL @ lit ''/api/search'' = lit ''http://localhost:8000/api/search''"
  by (simp add: API_BASE_URL_def lit_def)

lemma GET_settings_request:
  "\<lparr>req_method = lit ''GET'', req_url = API_BASE_URL @ lit ''/api/settings'',
    req_headers = [], req_body = None\<rparr> = GET_api_settings"
  by (simp add: GET_api_settings_def settings_url)

lemma DELETE_settings_request:
  "\<lparr>req_method = lit ''DELETE'', req_url = API_BASE_URL @ lit ''/api/settings'',
    req_headers = [], req_body = None\<rparr> = DELETE_api_settings"
  by (simp add: DELETE_api_settings_def settings_url)

lemma POST_settings_request:
  "\<lparr>req_method = lit ''POST'', req_url = API_BASE_URL @ lit ''/api/settings'',
    req_headers = [(lit ''Content-Type'', lit ''application/json'')],
    req_body = Some (Obj [(lit ''default_system_prompts'', Str v)])\<rparr> = POST_api_settings v"
  by (simp add: POST_api_settings_def settings_url)

lemma POST_search_request:
  "\<lparr>req_method = lit ''POST'', req_url = API_BASE_URL @ lit ''/api/search'',
    req_headers = [(lit ''Content-Type'', lit ''application/json'')],
    req_body = Some (Obj [(lit ''query'', Str q), (lit ''doctor_instructions'', Str d)])\<rparr> =
   POST_api_search q d"
  by (simp add: POST_api_search_def search_url)

text \<open>Each try block issues its request first; nothing after it touches the trace.\<close>

lemma requests_loadSettings_try:
  "requests (page_of (loadSettings_try env s)) = requests s @ [GET_api_settings]"
  unfolding loadSettings_try_def fetch_def GET_api_settings_def settings_url
  by (auto split: sum.splits
        intro!: eval_frame [where P = "\<lambda>s'. requests s' = requests s @ [r]" for r])

lemma requests_saveSettings_try:
  "requests (page_of (saveSettings_try env v s)) = requests s @ [POST_api_settings v]"
  unfolding saveSettings_try_def fetch_def POST_api_settings_def settings_url
  by (auto split: sum.splits simp add: dom_defs
        intro!: eval_frame [where P = "\<lambda>s'. requests s' = requests s @ [r]" for r])

lemma requests_resetSettings_try:
  "requests (page_of (resetSettings_try env s)) = requests s @ [DELETE_api_settings]"
  unfolding resetSettings_try_def fetch_def DELETE_api_settings_def settings_url
  by (auto split: sum.splits simp add: dom_defs
        intro!: eval_frame [where P = "\<lambda>s'. requests s' = requests s @ [r]" for r])

lemma requests_performSearch_try:
  "requests (page_of (performSearch_try env q d s)) = requests s @ [POST_api_search q d]"
  unfolding performSearch_try_def fetch_def POST_api_search_def search_url Let_def
  by (auto split: sum.splits completion.splits simp add: dom_defs
        intro!: eval_frame [where P = "\<lambda>s'. requests s' = requests s @ [r]" for r]
        dest!: displayResults_Normal_requests displayResults_Abrupt_requests)

lemma requests_loadSettings:
  "requests (loadSettings env s) = requests s @ [GET_api_settings]"
  using requests_loadSettings_try [of env s]
  by (cases "loadSettings_try env s") (simp_all add: loadSettings_def dom_defs)

lemma requests_saveSettings:
  "requests (saveSettings env s) =
     requests s @ [POST_api_settings (js_trim (defaultSystemPrompts_value s))]"
  using requests_saveSettings_try [of env "js_trim (defaultSystemPrompts_value s)" s]
  by (cases "saveSettings_try env (js_trim (defaultSystemPrompts_value s)) s")
     (simp_all add: saveSettings_def dom_defs)

lemma requests_resetSettings:
  "requests (resetSettings env s) =
     (if confirm env
           (lit ''Weet je zeker dat je alle instellingen wilt resetten naar standaardwaarden?'')
      then requests s @ [DELETE_api_settings] else requests s)"
  using requests_resetSettings_try [of env s]
  by (cases "resetSettings_try env s") (simp_all add: resetSettings_def dom_defs)

lemma requests_performSearch:
  "requests (performSearch env s) =
     (if js_trim (question_value s) = [] then requests s
      else requests s @ [POST_api_search (js_trim (question_value s))
                                         (js_trim (doctorInstructions_value s))])"
proof (cases "js_trim (question_value s) = []")
  case True
  then show ?thesis by (simp add: performSearch_def dom_defs)
next
  case False
  let ?s1 = "hideAnswerSection (hideMessage (showLoading True s))"
  let ?c = "performSearch_try env (js_trim (question_value s))
              (js_trim (doctorInstructions_value s)) ?s1"
  have "requests (page_of ?c) = requests ?s1 @ [POST_api_search (js_trim (question_value s))
                                                 (js_trim (doctorInstructions_value s))]"
    by (rule requests_performSearch_try)
  moreover have "requests ?s1 = requests s"
    by (simp add: dom_defs)
  ultimately show ?thesis
    using False by (cases ?c) (simp_all add: performSearch_def Let_def dom_defs)
qed

lemma example_instructions_trimmed:
  "js_trim (doctorInstructions_value example_page) = lit ''kort''"
  by (simp add: example_page_def js_trim_def is_ws_def lit_def)

lemma example_prompts_trimmed:
  "js_trim (defaultSystemPrompts_value example_page) = lit ''Wees beknopt''"
  by (simp add: example_page_def js_trim_def is_ws_def lit_def)

subsection \<open>The search request\<close>

text \<open>
  Claim C5. When the trimmed question is not empty, \<open>performSearch\<close> sends one request:
  a POST to \<^verbatim>\<open>/api/search\<close> whose JSON body has exactly the members \<^verbatim>\<open>query\<close>, the
  trimmed question, and \<^verbatim>\<open>doctor_instructions\<close>, the trimmed doctor instructions
  (which may be empty).
\<close>

theorem performSearch_request:
  assumes "js_trim (question_value s) \<noteq> []"
  shows "requests (performSearch env s) =
           requests s @ [POST_api_search (js_trim (question_value s))
                                         (js_trim (doctorInstructions_value s))]"
  using assms by (simp add: requests_performSearch)

theorem performSearch_request_witness:
  "requests (performSearch offline_env example_page) =
     [POST_api_search (lit ''hoofdpijn'') (lit ''kort'')]"
proof -
  have nonempty: "js_trim (question_value example_page) \<noteq> []"
    by (simp add: example_question_nonempty lit_def)
  have "requests example_page = []"
    by (simp add: example_page_def)
  with performSearch_request [OF nonempty, of offline_env] show ?thesis
    by (simp add: example_question_nonempty example_instructions_trimmed)
qed

subsection \<open>The save request\<close>

text \<open>
  Claim C6. Every invocation of \<open>saveSettings\<close> sends a POST to \<^verbatim>\<open>/api/settings\<close>
  whose JSON body has exactly the member \<^verbatim>\<open>default_system_prompts\<close>, the trimmed
  content of the settings field, and it leaves the field itself as it was.
\<close>

theorem saveSettings_request:
  "requests (saveSettings env s) =
     requests s @ [POST_api_settings (js_trim (defaultSystemPrompts_value s))]
   \<and> defaultSystemPrompts_value (saveSettings env s) = defaultSystemPrompts_value s"
proof
  show "requests (saveSettings env s) =
          requests s @ [POST_api_settings (js_trim (defaultSystemPrompts_value s))]"
    by (rule requests_saveSettings)
next
  let ?v = "js_trim (defaultSystemPrompts_value s)"
  have "defaultSystemPrompts_value (page_of (saveSettings_try env ?v s)) =
          defaultSystemPrompts_value s"
    unfolding saveSettings_try_def fetch_def
    by (auto split: sum.splits simp add: dom_defs
          intro!: eval_frame [where P = "\<lambda>s'. defaultSystemPrompts_value s' = v" for v])
  then show "defaultSystemPrompts_value (saveSettings env s) = defaultSystemPrompts_value s"
    by (cases "saveSettings_try env ?v s") (simp_all add: saveSettings_def dom_defs)
qed

theorem saveSettings_request_witness:
  "requests (saveSettings (server_env 200 (Obj [(lit ''success'', Bool True)])) example_page) =
     [POST_api_settings (lit ''Wees beknopt'')]
   \<and> defaultSystemPrompts_value
        (saveSettings (server_env 200 (Obj [(lit ''success'', Bool True)])) example_page) =
      lit '' Wees beknopt ''"
  using saveSettings_request [of "server_env 200 (Obj [(lit ''success'', Bool True)])" example_page]
  by (simp add: example_prompts_trimmed) (simp add: example_page_def)

subsection \<open>One request per invocation\<close>

text \<open>
  Claim C7. On every execution path, one invocation of \<open>loadSettings\<close>,
  \<open>saveSettings\<close>, \<open>resetSettings\<close> or \<open>performSearch\<close> adds at most one request to
  the trace of requests issued: a second \<^verbatim>\<open>fetch\<close> never occurs.
\<close>

theorem one_request_per_invocation:
  "(\<exists>rqs. requests (loadSettings env s) = requests s @ rqs \<and> length rqs \<le> 1)
   \<and> (\<exists>rqs. requests (saveSettings env s) = requests s @ rqs \<and> length rqs \<le> 1)
   \<and> (\<exists>rqs. requests (resetSettings env s) = requests s @ rqs \<and> length rqs \<le> 1)
   \<and> (\<exists>rqs. requests (performSearch env s) = requests s @ rqs \<and> length rqs \<le> 1)"
  by (simp add: requests_loadSettings requests_saveSettings requests_resetSettings
        requests_performSearch)

theorem one_request_per_invocation_witness:
  "length (requests (loadSettings offline_env example_page)) \<le> 1
   \<and> length (requests (saveSettings offline_env example_page)) \<le> 1
   \<and> length (requests (resetSettings offline_env example_page)) \<le> 1
   \<and> length (requests (performSearch offline_env example_page)) \<le> 1"
  using one_request_per_invocation [of offline_env example_page]
  by (auto simp add: example_page_def)

subsection \<open>A search without a question\<close>

text \<open>
  Claim C8. When the trimmed question is empty, \<open>performSearch\<close> issues no request,
  shows the error message \<^verbatim>\<open>Vul eerst een vraag in.\<close>, and leaves the loading indicator,
  the search button, the answer section and the references as they were.
\<close>

theorem performSearch_empty_question:
  assumes "js_trim (question_value s) = []"
  shows "requests (performSearch env s) = requests s
         \<and> messageArea_innerHTML (performSearch env s) =
             message_div (lit ''Vul eerst een vraag in.'') (lit ''error'')
         \<and> loading_display (performSearch env s) = loading_display s
         \<and> searchBtn_disabled (performSearch env s) = searchBtn_disabled s
         \<and> answerSection_display (performSearch env s) = answerSection_display s
         \<and> answerContent_innerHTML (performSearch env s) = answerContent_innerHTML s
         \<and> referencesContent_innerHTML (performSearch env s) = referencesContent_innerHTML s"
  using assms by (simp add: performSearch_def showMessage_def)

theorem performSearch_empty_question_witness:
  \<open>requests (performSearch (server_env 200 Null) blank_page) = []
   \<and> messageArea_innerHTML (performSearch (server_env 200 Null) blank_page) =
       lit ''<div class="error">Vul eerst een vraag in.</div>''
   \<and> loading_display (performSearch (server_env 200 Null) blank_page) = lit ''none''
   \<and> searchBtn_disabled (performSearch (server_env 200 Null) blank_page) = False
   \<and> answerSection_display (performSearch (server_env 200 Null) blank_page) = lit ''none''
   \<and> referencesContent_innerHTML (performSearch (server_env 200 Null) blank_page) = []\<close>
proof -
  have div: \<open>message_div (lit ''Vul eerst een vraag in.'') (lit ''error'') =
             lit ''<div class="error">Vul eerst een vraag in.</div>''\<close>
    by (simp add: message_div_def lit_def)
  from performSearch_empty_question [OF blank_question_empty, of "server_env 200 Null"]
  show ?thesis
    unfolding div by (simp add: blank_page_def example_page_def)
qed

subsection \<open>The loading state after a search\<close>

text \<open>
  Claim C9. Every invocation of \<open>performSearch\<close> that starts a search (the trimmed
  question is not empty) ends with the loading indicator hidden and the search button
  enabled, whatever the network answers: success, a failure reported by the server with or
  without partial content, a status outside 200 to 299, or a rejected \<^verbatim>\<open>fetch\<close>.
\<close>

theorem performSearch_ends_loading:
  assumes "js_trim (question_value s) \<noteq> []"
  shows "loading_display (performSearch env s) = lit ''none''
         \<and> searchBtn_disabled (performSearch env s) = False"
  using assms by (simp add: performSearch_def Let_def showLoading_def)

theorem performSearch_ends_loading_witness:
  "loading_display (performSearch (server_env 200 search_answer) example_page) = lit ''none''
   \<and> searchBtn_disabled (performSearch (server_env 200 search_answer) example_page) = False
   \<and> loading_display (performSearch (server_env 200 failure_answer) example_page) = lit ''none''
   \<and> searchBtn_disabled (performSearch (server_env 200 failure_answer) example_page) = False
   \<and> loading_display (performSearch (server_env 503 Null) example_page) = lit ''none''
   \<and> searchBtn_disabled (performSearch (server_env 503 Null) example_page) = False
   \<and> loading_display (performSearch offline_env example_page) = lit ''none''
   \<and> searchBtn_disabled (performSearch offline_env example_page) = False"
proof -
  have nonempty: "js_trim (question_value example_page) \<noteq> []"
    by (simp add: example_question_nonempty lit_def)
  from performSearch_ends_loading [OF nonempty, of "server_env 200 search_answer"]
    performSearch_ends_loading [OF nonempty, of "server_env 200 failure_answer"]
    performSearch_ends_loading [OF nonempty, of "server_env 503 Null"]
    performSearch_ends_loading [OF nonempty, of offline_env]
  show ?thesis by simp
qed

subsection \<open>Resetting the settings\<close>

lemma resetSettings_try_accepted:
  assumes "reset_accepted env"
  shows "resetSettings_try env s =
           Normal (showMessage (lit ''Instellingen gereset naar standaardwaarden!'') (lit ''success'')
                     (s\<lparr>requests := requests s @ [DELETE_api_settings],
                        defaultSystemPrompts_value := []\<rparr>))"
  using assms
  unfolding resetSettings_try_def reset_accepted_def fetch_def DELETE_settings_request
  by (auto simp add: eval_def split: sum.splits)

lemma resetSettings_try_refused:
  assumes "\<not> reset_accepted env"
  shows "\<exists>e. resetSettings_try env s =
               Abrupt e (s\<lparr>requests := requests s @ [DELETE_api_settings]\<rparr>)"
  using assms
  unfolding resetSettings_try_def reset_accepted_def fetch_def DELETE_settings_request
  by (auto simp add: eval_def split: sum.splits)

text \<open>
  Claim C10. When the user confirms the reset: if the answer to the DELETE request is a
  success, the settings field becomes the empty string and the success message
  \<^verbatim>\<open>Instellingen gereset naar standaardwaarden!\<close> is shown; on every other outcome (a
  status outside 200 to 299, a rejected \<^verbatim>\<open>fetch\<close>, an unreadable answer,
  \<^verbatim>\<open>success\<close> not true) the field keeps its value and an error message beginning
  \<^verbatim>\<open>Fout bij resetten instellingen:\<close> is shown. When the user declines, no request is
  issued and the page is unchanged.
\<close>

theorem resetSettings_outcomes:
  fixes env s
  defines "asked \<equiv> confirm env
    (lit ''Weet je zeker dat je alle instellingen wilt resetten naar standaardwaarden?'')"
  shows \<open>(asked \<and> reset_accepted env \<longrightarrow>
            defaultSystemPrompts_value (resetSettings env s) = []
            \<and> messageArea_innerHTML (resetSettings env s) =
                lit ''<div class="success">Instellingen gereset naar standaardwaarden!</div>'')
       \<and> (asked \<and> \<not> reset_accepted env \<longrightarrow>
            defaultSystemPrompts_value (resetSettings env s) = defaultSystemPrompts_value s
            \<and> (\<exists>m. messageArea_innerHTML (resetSettings env s) =
                      lit ''<div class="error">Fout bij resetten instellingen: '' @ m
                      @ lit ''</div>''))
       \<and> (\<not> asked \<longrightarrow> resetSettings env s = s)\<close>
proof (intro conjI impI)
  assume "asked \<and> reset_accepted env"
  then have "resetSettings env s =
               showMessage (lit ''Instellingen gereset naar standaardwaarden!'') (lit ''success'')
                 (s\<lparr>requests := requests s @ [DELETE_api_settings],
                    defaultSystemPrompts_value := []\<rparr>)"
    by (simp add: resetSettings_def asked_def resetSettings_try_accepted)
  then show "defaultSystemPrompts_value (resetSettings env s) = []"
    and \<open>messageArea_innerHTML (resetSettings env s) =
           lit ''<div class="success">Instellingen gereset naar standaardwaarden!</div>''\<close>
    by (simp_all add: showMessage_def message_div_def lit_def)
next
  assume refused: "asked \<and> \<not> reset_accepted env"
  then obtain e where "resetSettings_try env s =
                         Abrupt e (s\<lparr>requests := requests s @ [DELETE_api_settings]\<rparr>)"
    using resetSettings_try_refused by blast
  with refused have after: "resetSettings env s =
      showMessage (lit ''Fout bij resetten instellingen: '' @ message env e) (lit ''error'')
        (console_error (lit ''Settings reset error:'') e
           (s\<lparr>requests := requests s @ [DELETE_api_settings]\<rparr>))"
    by (simp add: resetSettings_def asked_def)
  show "defaultSystemPrompts_value (resetSettings env s) = defaultSystemPrompts_value s"
    unfolding after by (simp add: dom_defs)
  have \<open>messageArea_innerHTML (resetSettings env s) =
          lit ''<div class="error">Fout bij resetten instellingen: '' @ message env e
          @ lit ''</div>''\<close>
    unfolding after by (simp add: dom_defs message_div_def lit_def)
  then show \<open>\<exists>m. messageArea_innerHTML (resetSettings env s) =
              lit ''<div class="error">Fout bij resetten instellingen: '' @ m @ lit ''</div>''\<close>
    by blast
next
  assume "\<not> asked"
  then show "resetSettings env s = s"
    by (simp add: resetSettings_def asked_def)
qed

theorem resetSettings_outcomes_witness:
  \<open>defaultSystemPrompts_value
     (resetSettings (server_env 200 (Obj [(lit ''success'', Bool True)])) example_page) = []
   \<and> messageArea_innerHTML
       (resetSettings (server_env 200 (Obj [(lit ''success'', Bool True)])) example_page) =
      lit ''<div class="success">Instellingen gereset naar standaardwaarden!</div>''
   \<and> defaultSystemPrompts_value
       (resetSettings (server_env 200 (Obj [(lit ''success'', Bool False)])) example_page) =
      lit '' Wees beknopt ''
   \<and> messageArea_innerHTML
       (resetSettings (server_env 200 (Obj [(lit ''success'', Bool False)])) example_page) =
      lit ''<div class="error">Fout bij resetten instellingen: Onbekende fout opgetreden</div>''
   \<and> defaultSystemPrompts_value (resetSettings (server_env 503 Null) example_page) =
      lit '' Wees beknopt ''
   \<and> messageArea_innerHTML (resetSettings (server_env 503 Null) example_page) =
      lit ''<div class="error">Fout bij resetten instellingen: HTTP error! status: 503</div>''
   \<and> defaultSystemPrompts_value (resetSettings offline_env example_page) =
      lit '' Wees beknopt ''
   \<and> messageArea_innerHTML (resetSettings offline_env example_page) =
      lit ''<div class="error">Fout bij resetten instellingen: Failed to fetch</div>''
   \<and> resetSettings (declining_env 200 (Obj [(lit ''success'', Bool True)])) example_page =
      example_page\<close>
proof -
  let ?yes = "Obj [(lit ''success'', Bool True)]" and ?no = "Obj [(lit ''success'', Bool False)]"
  have asked: "confirm (server_env st data) q" "confirm offline_env q"
    "\<not> confirm (declining_env st data) q" for st data q
    by (simp_all add: server_env_def offline_env_def declining_env_def)
  have accepted: "reset_accepted (server_env 200 ?yes)"
    by (simp add: reset_accepted_def server_env_def ok_def obj_get_def)
  have refused: "\<not> reset_accepted (server_env 200 ?no)"
    "\<not> reset_accepted (server_env 503 Null)" "\<not> reset_accepted offline_env"
    by (simp_all add: reset_accepted_def server_env_def offline_env_def ok_def obj_get_def)
  have field: "defaultSystemPrompts_value example_page = lit '' Wees beknopt ''"
    by (simp add: example_page_def)
  have keys: "lit ''message'' \<noteq> lit ''success''"
    by (simp add: lit_def)
  have unknown: \<open>messageArea_innerHTML (resetSettings (server_env 200 ?no) example_page) =
      lit ''<div class="error">Fout bij resetten instellingen: Onbekende fout opgetreden</div>''\<close>
    by (simp add: resetSettings_def resetSettings_try_def fetch_def eval_def server_env_def
          ok_def obj_get_def js_or_def keys dom_defs message_div_def)
       (simp add: lit_def)
  have unavailable: \<open>messageArea_innerHTML (resetSettings (server_env 503 Null) example_page) =
      lit ''<div class="error">Fout bij resetten instellingen: HTTP error! status: 503</div>''\<close>
    by (simp add: resetSettings_def resetSettings_try_def fetch_def server_env_def ok_def
          http_error_def dom_defs message_div_def decimal.simps)
       (simp add: lit_def)
  have offline: \<open>messageArea_innerHTML (resetSettings offline_env example_page) =
      lit ''<div class="error">Fout bij resetten instellingen: Failed to fetch</div>''\<close>
    by (simp add: resetSettings_def resetSettings_try_def fetch_def server_env_def
          offline_env_def dom_defs message_div_def)
       (simp add: lit_def)
  show ?thesis
    using resetSettings_outcomes [of "server_env 200 ?yes" example_page]
      resetSettings_outcomes [of "server_env 200 ?no" example_page]
      resetSettings_outcomes [of "server_env 503 Null" example_page]
      resetSettings_outcomes [of offline_env example_page]
      resetSettings_outcomes [of "declining_env 200 ?yes" example_page]
    by (simp add: asked accepted refused field unknown unavailable offline)
qed

subsection \<open>Loading the settings\<close>



subsection \<open>Rendering the search result\<close>

text \<open>The loop over the entries appends one list item per entry, in the order of the list.\<close>

lemma append_links_entries:
  assumes "list_all2 source_entry entries srcs"
  shows "append_links entries html =
           Inr (html @ concat (map (\<lambda>(title, url). link_item url title) srcs))"
  using assms
proof (induction entries srcs arbitrary: html rule: list_all2_induct)
  case Nil
  then show ?case by simp
next
  case (Cons e entries src srcs)
  from \<open>source_entry e src\<close>
  have "source_link e = Inr (link_item (snd src) (fst src))"
    by (simp add: source_entry_def source_link_def bind_exn_def)
  with Cons.IH show ?case
    by (simp add: case_prod_beta)
qed

lemma summary_value_cases:
  "summary_value v None \<longleftrightarrow> v = Undefined \<or> v = Null"
  "summary_value v (Some summary) \<longleftrightarrow> v = Str summary"
  by (cases v; auto)+

lemma sources_value_cases:
  "sources_value v None \<longleftrightarrow> v = Undefined \<or> v = Null"
  "sources_value v (Some srcs) \<longleftrightarrow> (\<exists>entries. v = Arr entries \<and> list_all2 source_entry entries srcs)"
  by (cases v; auto)+

lemma displayResults_well_formed:
  assumes "get_prop data (lit ''llm_output'') = Inr llm_output"
    and "get_prop llm_output (lit ''summary'') = Inr summary_member"
    and "summary_value summary_member summary"
    and "get_prop llm_output (lit ''sources_used'') = Inr sources_member"
    and "sources_value sources_member sources"
  shows "displayResults env data s =
           Normal (s\<lparr>answerContent_innerHTML :=
                       (case summary of
                          None \<Rightarrow> lit ''Geen samenvatting beschikbaar.''
                        | Some text \<Rightarrow>
                            if text = [] then lit ''Geen samenvatting beschikbaar.'' else text),
                     referencesContent_innerHTML :=
                       (case sources of
                          None \<Rightarrow> lit ''<p>Geen bronnen gevonden.</p>''
                        | Some srcs \<Rightarrow>
                            if srcs = [] then lit ''<p>Geen bronnen gevonden.</p>''
                            else lit ''<h4>Gebruikte bronnen:</h4><ul>''
                                 @ concat (map (\<lambda>(title, url). link_item url title) srcs)
                                 @ lit ''</ul>''),
                     answerSection_display := lit ''block''\<rparr>)"
proof -
  have answer: "to_string (js_or summary_member (Str (lit ''Geen samenvatting beschikbaar.''))) =
                  Inr (case summary of
                         None \<Rightarrow> lit ''Geen samenvatting beschikbaar.''
                       | Some text \<Rightarrow>
                           if text = [] then lit ''Geen samenvatting beschikbaar.'' else text)"
    using assms(3) by (cases summary) (auto simp add: summary_value_cases js_or_def)
  show ?thesis
  proof (cases sources)
    case None
    with assms(5) have "\<not> truthy sources_member"
      by (auto simp add: sources_value_cases)
    with None assms(1,2,4) answer show ?thesis
      by (simp add: displayResults_def eval_def showAnswerSection_def)
  next
    case (Some srcs)
    with assms(5) obtain entries where member: "sources_member = Arr entries"
      and entries: "list_all2 source_entry entries srcs"
      by (auto simp add: sources_value_cases)
    from entries have same: "entries = [] \<longleftrightarrow> srcs = []"
      by (auto dest: list_all2_lengthD)
    from Some member assms(1,2,4) answer append_links_entries [OF entries] same show ?thesis
      by (simp add: displayResults_def eval_def showAnswerSection_def bind_exn_def
            num_of_nat_def)
  qed
qed

text \<open>
  Claim C2, as stated, fails: it speaks of every search answer with \<^verbatim>\<open>success\<close> true.
  At the answer \<^verbatim>\<open>{"success": true}\<close> with status 200, \<open>displayResults\<close> throws when
  it reads \<^verbatim>\<open>data.llm_output.summary\<close>; nothing is rendered, the answer section stays
  hidden, and the catch block of \<open>performSearch\<close> shows the error.
\<close>

theorem performSearch_success_without_output:
  \<open>answerContent_innerHTML
     (performSearch (server_env 200 (Obj [(lit ''success'', Bool True)])) example_page) = []
   \<and> referencesContent_innerHTML
       (performSearch (server_env 200 (Obj [(lit ''success'', Bool True)])) example_page) = []
   \<and> answerSection_display
       (performSearch (server_env 200 (Obj [(lit ''success'', Bool True)])) example_page) =
      lit ''none''
   \<and> lit ''none'' \<noteq> lit ''block''
   \<and> messageArea_innerHTML
       (performSearch (server_env 200 (Obj [(lit ''success'', Bool True)])) example_page) =
      lit ''<div class="error">Fout bij zoeken: Cannot read properties of undefined</div>''\<close>
proof -
  have keys: "lit ''llm_output'' \<noteq> lit ''success''"
    by (simp add: lit_def)
  have failed: "performSearch_try (server_env 200 (Obj [(lit ''success'', Bool True)]))
                  (lit ''hoofdpijn'') (lit ''kort'')
                  (hideAnswerSection (hideMessage (showLoading True example_page))) =
                Abrupt EngineTypeError
                  ((hideAnswerSection (hideMessage (showLoading True example_page)))
                     \<lparr>requests := [POST_api_search (lit ''hoofdpijn'') (lit ''kort'')]\<rparr>)"
    unfolding performSearch_try_def fetch_def POST_search_request
    by (simp add: server_env_def ok_def eval_def obj_get_def keys displayResults_def
          dom_defs example_page_def)
  have nonempty: "lit ''hoofdpijn'' \<noteq> []"
    by (simp add: lit_def)
  have after: "performSearch (server_env 200 (Obj [(lit ''success'', Bool True)])) example_page =
      showLoading False
        (showMessage
           (lit ''Fout bij zoeken: ''
            @ message (server_env 200 (Obj [(lit ''success'', Bool True)])) EngineTypeError)
           (lit ''error'')
           (console_error (lit ''Search error:'') EngineTypeError
              ((hideAnswerSection (hideMessage (showLoading True example_page)))
                 \<lparr>requests := [POST_api_search (lit ''hoofdpijn'') (lit ''kort'')]\<rparr>)))"
    by (simp add: performSearch_def Let_def example_question_nonempty
          example_instructions_trimmed nonempty failed)
  show ?thesis
    unfolding after
    by (simp add: dom_defs example_page_def server_env_def message_div_def) (simp add: lit_def)
qed

text \<open>
  Claim C2, amended. For a search answer with a status from 200 to 299 and \<^verbatim>\<open>success\<close>
  true that carries an \<^verbatim>\<open>llm_output\<close> (not \<^verbatim>\<open>null\<close>), whose summary is a string or
  missing and whose \<^verbatim>\<open>sources_used\<close> is a list of entries with string title and url or
  missing (missing: absent or \<^verbatim>\<open>null\<close>): the answer content becomes the summary, or
  the text \<^verbatim>\<open>Geen samenvatting beschikbaar.\<close> when the summary is missing or empty; the
  references become the heading and one link per source, in list order, each made of that
  source's url and title, or the text \<^verbatim>\<open>Geen bronnen gevonden.\<close> when the list is missing
  or empty; and the answer section is made visible.
\<close>

theorem performSearch_renders_results:
  assumes \<open>js_trim (question_value s) \<noteq> []\<close>
    and \<open>net env (POST_api_search (js_trim (question_value s))
                    (js_trim (doctorInstructions_value s))) = Inr response\<close>
    and \<open>ok response\<close>
    and \<open>json_result response = Inr data\<close>
    and \<open>get_prop data (lit ''success'') = Inr (Bool True)\<close>
    and \<open>get_prop data (lit ''llm_output'') = Inr llm_output\<close>
    and \<open>get_prop llm_output (lit ''summary'') = Inr summary_member\<close>
    and \<open>summary_value summary_member summary\<close>
    and \<open>get_prop llm_output (lit ''sources_used'') = Inr sources_member\<close>
    and \<open>sources_value sources_member sources\<close>
  shows \<open>answerContent_innerHTML (performSearch env s) =
           (case summary of
              None \<Rightarrow> lit ''Geen samenvatting beschikbaar.''
            | Some text \<Rightarrow> if text = [] then lit ''Geen samenvatting beschikbaar.'' else text)
       \<and> referencesContent_innerHTML (performSearch env s) =
           (case sources of
              None \<Rightarrow> lit ''<p>Geen bronnen gevonden.</p>''
            | Some srcs \<Rightarrow>
                if srcs = [] then lit ''<p>Geen bronnen gevonden.</p>''
                else lit ''<h4>Gebruikte bronnen:</h4><ul>''
                     @ concat (map (\<lambda>(title, url).
                                 lit ''<li><a href="'' @ url
                                 @ lit ''" target="_blank" rel="noopener noreferrer">'' @ title
                                 @ lit ''</a></li>'') srcs)
                     @ lit ''</ul>'')
       \<and> answerSection_display (performSearch env s) = lit ''block''\<close>
proof -
  let ?s1 = "hideAnswerSection (hideMessage (showLoading True s))"
  let ?s2 = "?s1\<lparr>requests := requests ?s1 @
                [POST_api_search (js_trim (question_value s))
                   (js_trim (doctorInstructions_value s))]\<rparr>"
  have item: \<open>(\<lambda>(title, url). link_item url title) =
              (\<lambda>(title, url). lit ''<li><a href="'' @ url
                 @ lit ''" target="_blank" rel="noopener noreferrer">'' @ title
                 @ lit ''</a></li>'')\<close>
    by (simp add: link_item_def)
  obtain s3 where shown: "displayResults env data ?s2 = Normal s3"
    and "answerContent_innerHTML s3 =
           (case summary of
              None \<Rightarrow> lit ''Geen samenvatting beschikbaar.''
            | Some text \<Rightarrow> if text = [] then lit ''Geen samenvatting beschikbaar.'' else text)"
    and "referencesContent_innerHTML s3 =
           (case sources of
              None \<Rightarrow> lit ''<p>Geen bronnen gevonden.</p>''
            | Some srcs \<Rightarrow>
                if srcs = [] then lit ''<p>Geen bronnen gevonden.</p>''
                else lit ''<h4>Gebruikte bronnen:</h4><ul>''
                     @ concat (map (\<lambda>(title, url). link_item url title) srcs)
                     @ lit ''</ul>'')"
    and "answerSection_display s3 = lit ''block''"
    using displayResults_well_formed [OF assms(6-10), of env ?s2] by simp
  moreover have "performSearch_try env (js_trim (question_value s))
                   (js_trim (doctorInstructions_value s)) ?s1 =
                 Normal (showMessage (lit ''Zoekopdracht succesvol voltooid!'') (lit ''success'') s3)"
    unfolding performSearch_try_def fetch_def POST_search_request
    using assms(2-5) shown by (simp add: eval_def)
  ultimately show ?thesis
    using assms(1) unfolding item [symmetric]
    by (simp add: performSearch_def Let_def showMessage_def showLoading_def)
qed

theorem performSearch_renders_results_witness:
  \<open>answerContent_innerHTML (performSearch (server_env 200 search_answer) example_page) =
     lit ''Rust en paracetamol.''
   \<and> referencesContent_innerHTML (performSearch (server_env 200 search_answer) example_page) =
       lit ''<h4>Gebruikte bronnen:</h4><ul>''
       @ lit ''<li><a href="https://nhg.org/hoofdpijn" target="_blank" rel="noopener noreferrer">NHG</a></li>''
       @ lit ''<li><a href="https://thuisarts.nl" target="_blank" rel="noopener noreferrer">Thuisarts</a></li>''
       @ lit ''</ul>''
   \<and> answerSection_display (performSearch (server_env 200 search_answer) example_page) =
       lit ''block''
   \<and> answerContent_innerHTML (performSearch (server_env 200 bare_answer) example_page) =
       lit ''Geen samenvatting beschikbaar.''
   \<and> referencesContent_innerHTML (performSearch (server_env 200 bare_answer) example_page) =
       lit ''<p>Geen bronnen gevonden.</p>''
   \<and> answerSection_display (performSearch (server_env 200 bare_answer) example_page) =
       lit ''block''\<close>
proof -
  let ?entries = "[Obj [(lit ''title'', Str (lit ''NHG'')),
                        (lit ''url'', Str (lit ''https://nhg.org/hoofdpijn''))],
                   Obj [(lit ''title'', Str (lit ''Thuisarts'')),
                        (lit ''url'', Str (lit ''https://thuisarts.nl''))]]"
  let ?llm = "Obj [(lit ''summary'', Str (lit ''Rust en paracetamol.'')),
                   (lit ''sources_used'', Arr ?entries)]"
  let ?bare = "Obj [(lit ''summary'', Null), (lit ''sources_used'', Arr [])]"
  let ?srcs = "[(lit ''NHG'', lit ''https://nhg.org/hoofdpijn''),
                (lit ''Thuisarts'', lit ''https://thuisarts.nl'')]"
  have keys: "lit ''success'' \<noteq> lit ''llm_output''" "lit ''llm_output'' \<noteq> lit ''success''"
    "lit ''summary'' \<noteq> lit ''sources_used''" "lit ''sources_used'' \<noteq> lit ''summary''"
    "lit ''title'' \<noteq> lit ''url''" "lit ''url'' \<noteq> lit ''title''"
    by (simp_all add: lit_def)
  have nonempty: "js_trim (question_value example_page) \<noteq> []"
    by (simp add: example_question_nonempty lit_def)
  have answered: "net (server_env 200 data)
                    (POST_api_search (js_trim (question_value example_page))
                       (js_trim (doctorInstructions_value example_page))) =
                  Inr \<lparr>status = 200, json_result = Inr data\<rparr>" for data
    by (simp add: server_env_def)
  have ok: "ok \<lparr>status = 200, json_result = Inr data\<rparr>" for data
    by (simp add: ok_def)
  have success: "get_prop search_answer (lit ''success'') = Inr (Bool True)"
    and llm: "get_prop search_answer (lit ''llm_output'') = Inr ?llm"
    by (simp_all add: search_answer_def obj_get_def keys)
  have summary: "get_prop ?llm (lit ''summary'') = Inr (Str (lit ''Rust en paracetamol.''))"
    and sources: "get_prop ?llm (lit ''sources_used'') = Inr (Arr ?entries)"
    by (simp_all add: obj_get_def keys)
  have summary_ok: "summary_value (Str (lit ''Rust en paracetamol.''))
                      (Some (lit ''Rust en paracetamol.''))"
    and sources_ok: "sources_value (Arr ?entries) (Some ?srcs)"
    by (simp_all add: source_entry_def obj_get_def keys)
  have bare_success: "get_prop bare_answer (lit ''success'') = Inr (Bool True)"
    and bare_llm: "get_prop bare_answer (lit ''llm_output'') = Inr ?bare"
    by (simp_all add: bare_answer_def obj_get_def keys)
  have bare_summary: "get_prop ?bare (lit ''summary'') = Inr Null"
    and bare_sources: "get_prop ?bare (lit ''sources_used'') = Inr (Arr [])"
    by (simp_all add: obj_get_def keys)
  have bare_summary_ok: "summary_value Null None"
    and bare_sources_ok: "sources_value (Arr []) (Some [])"
    by simp_all
  from performSearch_renders_results
         [OF nonempty answered ok _ success llm summary summary_ok sources sources_ok]
       performSearch_renders_results
         [OF nonempty answered ok _ bare_success bare_llm bare_summary bare_summary_ok
            bare_sources bare_sources_ok]
  show ?thesis
    by (simp add: lit_def)
qed

subsection \<open>Failures reported by the server\<close>

text \<open>
  An answer with a status from 200 to 299 whose \<^verbatim>\<open>success\<close> member is not true is a
  failure of the application. \<open>saveSettings\<close>, \<open>resetSettings\<close> and
  \<open>performSearch\<close> throw in that branch, so their catch block shows the error.
  \<open>loadSettings\<close> has no such branch: it completes normally and changes nothing but
  the trace of requests.
\<close>

lemma loadSettings_unsuccessful_silent:
  assumes "net env GET_api_settings = Inr response"
    and "ok response"
    and "json_result response = Inr data"
    and "get_prop data (lit ''success'') = Inr success"
    and "\<not> truthy success"
  shows "loadSettings env s = s\<lparr>requests := requests s @ [GET_api_settings]\<rparr>"
proof -
  have "loadSettings_try env s = Normal (s\<lparr>requests := requests s @ [GET_api_settings]\<rparr>)"
    unfolding loadSettings_try_def fetch_def GET_settings_request
    using assms by (simp add: eval_def)
  then show ?thesis
    by (simp add: loadSettings_def)
qed

lemma loadSettings_failure_shown:
  assumes "\<forall>response. net env GET_api_settings = Inr response \<longrightarrow>
             \<not> ok response \<or> (\<exists>e. json_result response = Inl e)"
  shows "messageArea_innerHTML (loadSettings env s) =
           message_div (lit ''Kon instellingen niet laden'') (lit ''error'')
         \<and> defaultSystemPrompts_value (loadSettings env s) = defaultSystemPrompts_value s"
proof -
  have "\<exists>e. loadSettings_try env s = Abrupt e (s\<lparr>requests := requests s @ [GET_api_settings]\<rparr>)"
    unfolding loadSettings_try_def fetch_def GET_settings_request
    using assms by (cases "net env GET_api_settings") (auto simp add: eval_def)
  then show ?thesis
    by (auto simp add: loadSettings_def dom_defs)
qed

lemma saveSettings_failure_shown:
  assumes "\<not> (\<exists>response data success.
                net env (POST_api_settings (js_trim (defaultSystemPrompts_value s))) = Inr response
                \<and> ok response \<and> json_result response = Inr data
                \<and> get_prop data (lit ''success'') = Inr success \<and> truthy success)"
  shows "\<exists>m. messageArea_innerHTML (saveSettings env s) =
               message_div (lit ''Fout bij opslaan instellingen: '' @ m) (lit ''error'')"
proof -
  let ?v = "js_trim (defaultSystemPrompts_value s)"
  have "\<exists>e. saveSettings_try env ?v s =
              Abrupt e (s\<lparr>requests := requests s @ [POST_api_settings ?v]\<rparr>)"
    unfolding saveSettings_try_def fetch_def POST_settings_request
    using assms by (auto simp add: eval_def split: sum.splits)
  then show ?thesis
    by (auto simp add: saveSettings_def dom_defs)
qed

lemma performSearch_try_failure:
  assumes "\<not> (\<exists>response data success.
                net env (POST_api_search q d) = Inr response
                \<and> ok response \<and> json_result response = Inr data
                \<and> get_prop data (lit ''success'') = Inr success \<and> truthy success)"
  shows "(\<exists>e s'. performSearch_try env q d s = Abrupt e s')
         \<or> (\<exists>m s'. performSearch_try env q d s =
                      Normal (showMessage (lit ''Waarschuwing: '' @ m) (lit ''warning'') s'))"
proof (cases "performSearch_try env q d s")
  case (Abrupt e s')
  then show ?thesis by simp
next
  case (Normal s')
  then show ?thesis
    unfolding performSearch_try_def fetch_def POST_search_request Let_def
    using assms
    by (auto simp add: eval_def split: sum.splits if_splits completion.splits)
qed

lemma performSearch_failure_shown:
  assumes "js_trim (question_value s) \<noteq> []"
    and "\<not> (\<exists>response data success.
                net env (POST_api_search (js_trim (question_value s))
                           (js_trim (doctorInstructions_value s))) = Inr response
                \<and> ok response \<and> json_result response = Inr data
                \<and> get_prop data (lit ''success'') = Inr success \<and> truthy success)"
  shows "\<exists>m. messageArea_innerHTML (performSearch env s) =
               message_div (lit ''Fout bij zoeken: '' @ m) (lit ''error'')
             \<or> messageArea_innerHTML (performSearch env s) =
               message_div (lit ''Waarschuwing: '' @ m) (lit ''warning'')"
  using performSearch_try_failure [OF assms(2),
          of "hideAnswerSection (hideMessage (showLoading True s))"] assms(1)
  by (auto simp add: performSearch_def Let_def dom_defs)

text \<open>
  Claim C4, at an answer \<^verbatim>\<open>{"success": false}\<close> with status 200: the settings fetch
  has failed, the field is left as it was, but no error message is shown; the message area
  stays empty and nothing is written to the console.
\<close>

theorem loadSettings_unsuccessful_no_message:
  "messageArea_innerHTML
     (loadSettings (server_env 200 (Obj [(lit ''success'', Bool False)])) example_page) = []
   \<and> console (loadSettings (server_env 200 (Obj [(lit ''success'', Bool False)])) example_page) = []
   \<and> defaultSystemPrompts_value
       (loadSettings (server_env 200 (Obj [(lit ''success'', Bool False)])) example_page) =
      lit '' Wees beknopt ''"
  by (simp add: loadSettings_def loadSettings_try_def fetch_def eval_def server_env_def ok_def
        obj_get_def example_page_def)

text \<open>
  Claim C1, at the answer \<^verbatim>\<open>{"success": false, "message": "Database niet bereikbaar"}\<close>
  with status 200: \<open>loadSettings\<close> leaves the message area empty, where
  \<open>saveSettings\<close> and \<open>resetSettings\<close> show the error of the same answer.
\<close>

theorem loadSettings_failure_not_displayed:
  \<open>messageArea_innerHTML (loadSettings (server_env 200 failure_answer) example_page) = []
   \<and> messageArea_innerHTML (saveSettings (server_env 200 failure_answer) example_page) =
       lit ''<div class="error">Fout bij opslaan instellingen: Database niet bereikbaar</div>''
   \<and> messageArea_innerHTML (resetSettings (server_env 200 failure_answer) example_page) =
       lit ''<div class="error">Fout bij resetten instellingen: Database niet bereikbaar</div>''\<close>
proof (intro conjI)
  have keys: "lit ''success'' \<noteq> lit ''message''" "lit ''message'' \<noteq> lit ''success''"
    by (simp_all add: lit_def)
  show "messageArea_innerHTML (loadSettings (server_env 200 failure_answer) example_page) = []"
    by (simp add: loadSettings_def loadSettings_try_def fetch_def eval_def server_env_def
          ok_def obj_get_def failure_answer_def example_page_def keys)
  show \<open>messageArea_innerHTML (saveSettings (server_env 200 failure_answer) example_page) =
        lit ''<div class="error">Fout bij opslaan instellingen: Database niet bereikbaar</div>''\<close>
    by (simp add: saveSettings_def saveSettings_try_def fetch_def eval_def server_env_def
          ok_def obj_get_def failure_answer_def js_or_def keys dom_defs message_div_def)
       (simp add: lit_def)
  show \<open>messageArea_innerHTML (resetSettings (server_env 200 failure_answer) example_page) =
        lit ''<div class="error">Fout bij resetten instellingen: Database niet bereikbaar</div>''\<close>
    by (simp add: resetSettings_def resetSettings_try_def fetch_def eval_def server_env_def
          ok_def obj_get_def failure_answer_def js_or_def keys dom_defs message_div_def)
       (simp add: lit_def)
qed

end
